theory Spec2Isabelle
  imports Main "HOL-Library.Word"
begin

section \<open>The package gcppubsub: a wrapper around the Pub/Sub client library\<close>

text \<open>
  The wrapper (package \<open>gcppubsub\<close>) consists of thin methods over the client library
  \<open>cloud.google.com/go/pubsub\<close>. The library and the broker behind it are not part of the
  program: every library call the wrapper makes is an operation of a parameter \<open>L\<close>, a record
  of functions over a world \<open>'w\<close> (connection, broker, clock). The theorems hold for every
  such \<open>L\<close>. A small in-memory broker at the end of the definitions instantiates \<open>L\<close>, so that
  the theorems can be applied to concrete calls.
\<close>

subsection \<open>Values\<close>

text \<open>\<open>time.Duration\<close> counts nanoseconds in an int64; \<open>time.Time\<close> is an instant, here the
  nanoseconds since the zero instant, so that \<open>IsZero\<close> is equality with 0.\<close>

type_synonym duration = int
type_synonym time = int
type_synonym byte = "8 word"

definition Second :: duration where
  "Second = 1000000000"

definition Minute :: duration where
  "Minute = 60 * Second"

definition maxDuration :: duration where
  "maxDuration = 2 ^ 63 - 1"

definition minDuration :: duration where
  "minDuration = - (2 ^ 63)"

definition IsZero :: "time \<Rightarrow> bool" where
  "IsZero u = (u = 0)"

text \<open>\<open>time.Since(u)\<close> is \<open>time.Now().Sub(u)\<close>; \<open>Sub\<close> saturates at the ends of int64.\<close>

definition Since :: "time \<Rightarrow> time \<Rightarrow> duration" where
  "Since now u =
     (let d = now - u
      in if d > maxDuration then maxDuration else if d < minDuration then minDuration else d)"

text \<open>Errors: the two sentinel variables of the package, \<open>errors.New\<close>, \<open>fmt.Errorf\<close> with
  \<open>%w\<close> (the format's prefix and the wrapped error), and the errors the library reports.\<close>

datatype status_code = NotFound | AlreadyExists | Canceled | Unavailable

datatype error =
    ErrSubscriptionExists
  | ErrTopicNotFound
  | New string
  | Errorf string error
  | Status status_code

text \<open>A panic carries a value: the runtime error of a nil pointer dereference, or whatever a
  handler passed to \<open>panic\<close>. From Go 1.21 on (the program imports \<open>log/slog\<close>, which that
  release introduced) \<open>recover\<close> never yields nil while a panic is in flight, so the recovered
  value is \<open>Some v\<close> exactly when the function is panicking.\<close>

datatype panic_value = NilDereference | Value string

datatype 'a completion = Return 'a | Panic panic_value

type_synonym ref = nat

subsection \<open>Types of the library\<close>

record pubsub_Message =
  ps_ID :: string
  ps_Data :: "byte list"
  ps_Attributes :: "string \<rightharpoonup> string"
  ps_PublishTime :: time
  ps_DeliveryAttempt :: "int option"
  ps_OrderingKey :: string

record pubsub_Topic =
  topic_client :: ref
  topic_id :: string

record pubsub_ReceiveSettings =
  ps_Synchronous :: bool
  ps_NumGoroutines :: int
  ps_MaxOutstandingMessages :: int
  ps_MaxOutstandingBytes :: int

record pubsub_Subscription =
  sub_client :: ref
  sub_id :: string
  ReceiveSettings :: pubsub_ReceiveSettings

record pubsub_RetryPolicy =
  MinimumBackoff :: duration
  MaximumBackoff :: duration

record pubsub_SubscriptionConfig =
  ps_Topic :: pubsub_Topic
  ps_AckDeadline :: duration
  ps_RetentionDuration :: duration
  ps_RetryPolicy :: "pubsub_RetryPolicy option"

subsection \<open>Types of the wrapper\<close>

record Message =
  ID :: string
  Data :: "byte list"
  Attributes :: "string \<rightharpoonup> string"
  PublishTime :: time
  DeliveryAttempt :: int

text \<open>A handler returns an error (nil is \<open>None\<close>) or panics. The context argument is passed
  through unchanged and is left out.\<close>

datatype handler_result = Returns "error option" | Panics panic_value

type_synonym Handler = "Message \<Rightarrow> handler_result"

datatype PubSubClient = PubSubClient (PubSubClient_client: "ref option")

datatype Topic = Topic (Topic_t: "pubsub_Topic option")

datatype Subscription = Subscription (Subscription_s: "pubsub_Subscription option")

record ReceiveConfig =
  Concurrency :: int
  EnableMessageOrdering :: bool
  MaxOutstandingMessages :: int
  MaxOutstandingBytes :: int

record SubscriptionConfig =
  cfg_Topic :: "Topic option"
  AckDeadline :: duration
  MinBackoff :: duration
  MaxBackoff :: duration
  StartAtTime :: time

text \<open>What one run of the per-message callback does, in order: the call of the handler, the
  line printed by the deferred function (\<open>panic in message handler\<close>, the recovered value and
  \<open>debug.Stack()\<close>), and the calls of \<open>m.Ack()\<close> and \<open>m.Nack()\<close>.\<close>

datatype event = Call Message | Printf panic_value | Ack | Nack

type_synonym callback = "pubsub_Message \<Rightarrow> event list \<times> panic_value option"

subsection \<open>The library as a parameter\<close>

record 'w pubsub_api =
  lib_Client_Close :: "ref \<Rightarrow> 'w \<Rightarrow> error option \<times> 'w"
  lib_Topic_Config :: "pubsub_Topic \<Rightarrow> 'w \<Rightarrow> error option \<times> 'w"
  lib_Topic_Publish :: "pubsub_Topic \<Rightarrow> pubsub_Message \<Rightarrow> 'w \<Rightarrow> (error + string) \<times> 'w"
  lib_Subscription_Exists :: "pubsub_Subscription \<Rightarrow> 'w \<Rightarrow> (bool \<times> error option) \<times> 'w"
  lib_CreateSubscription ::
    "ref \<Rightarrow> string \<Rightarrow> pubsub_SubscriptionConfig \<Rightarrow> 'w \<Rightarrow> (error + pubsub_Subscription) \<times> 'w"
  lib_Subscription_Receive ::
    "pubsub_Subscription \<Rightarrow> callback \<Rightarrow> 'w \<Rightarrow> error option completion \<times> 'w"
  lib_DefaultReceiveSettings :: pubsub_ReceiveSettings
  lib_Now :: "'w \<Rightarrow> time"

text \<open>\<open>client.Topic(id)\<close> and \<open>client.Subscription(id)\<close> of the library construct a reference
  and make no call to the broker.\<close>

definition lib_Topic :: "ref \<Rightarrow> string \<Rightarrow> pubsub_Topic" where
  "lib_Topic k topicID = \<lparr>topic_client = k, topic_id = topicID\<rparr>"

definition lib_Subscription :: "'w pubsub_api \<Rightarrow> ref \<Rightarrow> string \<Rightarrow> pubsub_Subscription" where
  "lib_Subscription L k subID =
     \<lparr>sub_client = k, sub_id = subID, ReceiveSettings = lib_DefaultReceiveSettings L\<rparr>"

subsection \<open>PubSubClient.Close\<close>

definition Client_Close :: "'w pubsub_api \<Rightarrow> PubSubClient \<Rightarrow> 'w \<Rightarrow> error option \<times> 'w" where
  "Client_Close L c w =
     (case PubSubClient_client c of
        None \<Rightarrow> (None, w)
      | Some k \<Rightarrow> lib_Client_Close L k w)"

subsection \<open>PubSubClient.Topic, Topic.Exists, Topic.Publish\<close>

text \<open>With a non-empty identifier the library's \<open>Topic\<close> method reads its receiver, which
  panics when \<open>c.client\<close> is nil.\<close>

definition Client_Topic :: "PubSubClient \<Rightarrow> string \<Rightarrow> Topic completion" where
  "Client_Topic c topicID =
     (if topicID = [] then Return (Topic None)
      else case PubSubClient_client c of
             None \<Rightarrow> Panic NilDereference
           | Some k \<Rightarrow> Return (Topic (Some (lib_Topic k topicID))))"

definition Topic_Exists :: "'w pubsub_api \<Rightarrow> Topic \<Rightarrow> 'w \<Rightarrow> (bool \<times> error option) \<times> 'w" where
  "Topic_Exists L tp w =
     (case Topic_t tp of
        None \<Rightarrow> ((False, None), w)
      | Some topic \<Rightarrow>
          (let (err, w') = lib_Topic_Config L topic w
           in ((err = None, err), w')))"

definition Topic_Publish ::
  "'w pubsub_api \<Rightarrow> Topic \<Rightarrow> byte list \<Rightarrow> (string \<rightharpoonup> string) \<Rightarrow> 'w \<Rightarrow> (error + string) \<times> 'w"
where
  "Topic_Publish L tp data attrs w =
     (case Topic_t tp of
        None \<Rightarrow> (Inl (New ''invalid topic''), w)
      | Some topic \<Rightarrow>
          (let msg = \<lparr>ps_ID = [], ps_Data = data, ps_Attributes = attrs,
                      ps_PublishTime = lib_Now L w, ps_DeliveryAttempt = None,
                      ps_OrderingKey = []\<rparr>;
               (res, w') = lib_Topic_Publish L topic msg w
           in case res of
                Inl err \<Rightarrow> (Inl (Errorf ''failed to publish message: '' err), w')
              | Inr msgID \<Rightarrow> (Inr msgID, w')))"

subsection \<open>Subscription.Receive\<close>

text \<open>The struct literal of the callback, given the value read through the pointer
  \<open>m.DeliveryAttempt\<close>.\<close>

definition Message_of :: "pubsub_Message \<Rightarrow> int \<Rightarrow> Message" where
  "Message_of m n =
     \<lparr>ID = ps_ID m, Data = ps_Data m, Attributes = ps_Attributes m,
      PublishTime = ps_PublishTime m, DeliveryAttempt = n\<rparr>"

text \<open>The body of the callback up to its return or panic: the events so far, and the panic in
  flight if there is one. Reading \<open>*m.DeliveryAttempt\<close> panics on a nil pointer, before the
  handler is called.\<close>

definition callback_body :: "Handler \<Rightarrow> pubsub_Message \<Rightarrow> event list \<times> panic_value option" where
  "callback_body handler m =
     (case ps_DeliveryAttempt m of
        None \<Rightarrow> ([], Some NilDereference)
      | Some n \<Rightarrow>
          (let msg = Message_of m n
           in case handler msg of
                Panics v \<Rightarrow> ([Call msg], Some v)
              | Returns (Some err) \<Rightarrow> ([Call msg, Nack], None)
              | Returns None \<Rightarrow> ([Call msg, Ack], None)))"

text \<open>The deferred function: \<open>recover()\<close> yields the value \<open>r\<close> of the panic in flight (nil
  when there is none) and ends the panic; the second component is the panic that is still in
  flight when the deferred function has returned.\<close>

definition callback_deferred :: "panic_value option \<Rightarrow> event list \<times> panic_value option" where
  "callback_deferred r =
     (case r of
        Some v \<Rightarrow> ([Printf v, Nack], None)
      | None \<Rightarrow> ([], None))"

definition callback :: "Handler \<Rightarrow> callback" where
  "callback handler m =
     (let (tr, r) = callback_body handler m;
          (tr', p) = callback_deferred r
      in (tr @ tr', p))"

text \<open>\<open>Receive\<close> writes the settings into the library's subscription object, which outlives
  the call, and passes the callback to the library's \<open>Receive\<close>. The field
  \<open>EnableMessageOrdering\<close> of the configuration is not read.\<close>

definition Subscription_Receive ::
  "'w pubsub_api \<Rightarrow> Subscription \<Rightarrow> Handler \<Rightarrow> ReceiveConfig option \<Rightarrow> 'w
     \<Rightarrow> (error option completion \<times> Subscription) \<times> 'w"
where
  "Subscription_Receive L s handler cfg0 w =
     (case Subscription_s s of
        None \<Rightarrow> ((Return (Some (New ''invalid subscription'')), s), w)
      | Some sub \<Rightarrow>
          (let cfg = (case cfg0 of
                        None \<Rightarrow> \<lparr>Concurrency = 0, EnableMessageOrdering = False,
                                  MaxOutstandingMessages = 0, MaxOutstandingBytes = 0\<rparr>
                      | Some c \<Rightarrow> c);
               rs1 = (ReceiveSettings sub)\<lparr>ps_Synchronous := True\<rparr>;
               rs2 = (if Concurrency cfg > 0
                      then rs1\<lparr>ps_NumGoroutines := Concurrency cfg\<rparr> else rs1);
               rs3 = (if MaxOutstandingMessages cfg > 0
                      then rs2\<lparr>ps_MaxOutstandingMessages := MaxOutstandingMessages cfg\<rparr>
                      else rs2);
               rs4 = (if MaxOutstandingBytes cfg > 0
                      then rs3\<lparr>ps_MaxOutstandingBytes := MaxOutstandingBytes cfg\<rparr>
                      else rs3);
               sub' = sub\<lparr>ReceiveSettings := rs4\<rparr>;
               (res, w') = lib_Subscription_Receive L sub' (callback handler) w
           in ((res, Subscription (Some sub')), w')))"

subsection \<open>PubSubClient.CreateSubscription\<close>

text \<open>The library's configuration value that \<open>CreateSubscription\<close> builds in its local
  variable \<open>subConfig\<close> from the topic, the caller's configuration (nil is \<open>None\<close>) and the
  clock read by \<open>time.Since\<close>.\<close>

definition subConfig ::
  "pubsub_Topic \<Rightarrow> time \<Rightarrow> SubscriptionConfig option \<Rightarrow> pubsub_SubscriptionConfig"
where
  "subConfig topic now cfg0 =
     (let sc0 = \<lparr>ps_Topic = topic, ps_AckDeadline = 0, ps_RetentionDuration = 0,
                  ps_RetryPolicy = None\<rparr>
      in case cfg0 of
           None \<Rightarrow> sc0
         | Some cfg \<Rightarrow>
             (let sc1 = (if AckDeadline cfg > 0
                         then sc0\<lparr>ps_AckDeadline := AckDeadline cfg\<rparr> else sc0);
                  sc2 = (if \<not> IsZero (StartAtTime cfg)
                         then sc1\<lparr>ps_RetentionDuration := Since now (StartAtTime cfg)\<rparr>
                         else sc1)
              in if MinBackoff cfg > 0 \<or> MaxBackoff cfg > 0
                 then (let minBackoff = (if MinBackoff cfg > 0 then MinBackoff cfg
                                         else 10 * Second);
                           maxBackoff = (if MaxBackoff cfg > 0 then MaxBackoff cfg
                                         else 10 * Minute)
                       in sc2\<lparr>ps_RetryPolicy :=
                                Some \<lparr>MinimumBackoff = minBackoff,
                                      MaximumBackoff = maxBackoff\<rparr>\<rparr>)
                 else sc2))"

text \<open>The topic argument is a pointer (nil is \<open>None\<close>). The library's \<open>Subscription\<close>
  method reads its receiver, which panics when \<open>c.client\<close> is nil.\<close>

definition CreateSubscription ::
  "'w pubsub_api \<Rightarrow> PubSubClient \<Rightarrow> string \<Rightarrow> Topic option \<Rightarrow> SubscriptionConfig option \<Rightarrow> 'w
     \<Rightarrow> (error + Subscription) completion \<times> 'w"
where
  "CreateSubscription L c subID topic cfg w =
     (if subID = [] then (Return (Inl (New ''subscription ID cannot be empty'')), w)
      else case (case topic of None \<Rightarrow> None | Some tp \<Rightarrow> Topic_t tp) of
             None \<Rightarrow> (Return (Inl (New ''topic cannot be nil'')), w)
           | Some pt \<Rightarrow>
               (case PubSubClient_client c of
                  None \<Rightarrow> (Panic NilDereference, w)
                | Some k \<Rightarrow>
                    (let sub = lib_Subscription L k subID;
                         ((exists, err), w1) = lib_Subscription_Exists L sub w
                     in case err of
                          Some e \<Rightarrow>
                            (Return (Inl (Errorf ''failed to check subscription existence: '' e)),
                             w1)
                        | None \<Rightarrow>
                            if exists then (Return (Inl ErrSubscriptionExists), w1)
                            else (let (res, w2) =
                                        lib_CreateSubscription L k subID
                                          (subConfig pt (lib_Now L w1) cfg) w1
                                  in case res of
                                       Inl e \<Rightarrow>
                                         (Return (Inl (Errorf ''failed to create subscription: '' e)),
                                          w2)
                                     | Inr s \<Rightarrow> (Return (Inr (Subscription (Some s))), w2)))))"

subsection \<open>An in-memory broker\<close>

text \<open>
  A stand-in for the library and the broker behind it, used to apply the theorems to concrete
  calls. It keeps the topics and subscriptions that exist, whether the connection has been
  closed, the messages waiting for delivery, and a log of every request it received. Its
  answers follow the library's documented contract: a lookup of a missing topic fails with
  \<open>NotFound\<close>; \<open>Exists\<close> on a subscription turns \<open>NotFound\<close> into \<open>(false, nil)\<close>; creating an
  existing subscription fails with \<open>AlreadyExists\<close>; a request on a closed connection,
  closing included, fails with \<open>Canceled\<close> (the client connection is closing). When a
  subscription is created, the library replaces an acknowledgment deadline of zero by 10
  seconds and refuses one outside 10 to 600 seconds before it sends anything; a configuration
  without a retry policy is sent and stored without one. A published message waits for
  delivery as it was published, without a delivery-attempt field: the broker sets that field
  only on subscriptions with a dead-letter policy, which the wrapper never configures.
\<close>

datatype request =
    CloseRequest ref
  | GetTopicRequest string
  | GetSubscriptionRequest string
  | CreateSubscriptionRequest string pubsub_SubscriptionConfig
  | PublishRequest string pubsub_Message
  | PullRequest string

record broker =
  b_topics :: "string list"
  b_subscriptions :: "(string \<times> pubsub_SubscriptionConfig) list"
  b_closed :: bool
  b_pending :: "pubsub_Message list"
  b_resolved :: "event list list"
  b_requests :: "request list"
  b_clock :: time

definition logged :: "request \<Rightarrow> broker \<Rightarrow> broker" where
  "logged r b = b\<lparr>b_requests := b_requests b @ [r]\<rparr>"

definition mem_Close :: "ref \<Rightarrow> broker \<Rightarrow> error option \<times> broker" where
  "mem_Close k b =
     (if b_closed b then (Some (Status Canceled), logged (CloseRequest k) b)
      else (None, logged (CloseRequest k) (b\<lparr>b_closed := True\<rparr>)))"

definition mem_Topic_Config :: "pubsub_Topic \<Rightarrow> broker \<Rightarrow> error option \<times> broker" where
  "mem_Topic_Config topic b =
     (if b_closed b then (Some (Status Canceled), logged (GetTopicRequest (topic_id topic)) b)
      else if topic_id topic \<in> set (b_topics b)
      then (None, logged (GetTopicRequest (topic_id topic)) b)
      else (Some (Status NotFound), logged (GetTopicRequest (topic_id topic)) b))"

definition mem_Topic_Publish ::
  "pubsub_Topic \<Rightarrow> pubsub_Message \<Rightarrow> broker \<Rightarrow> (error + string) \<times> broker"
where
  "mem_Topic_Publish topic msg b =
     (if b_closed b
      then (Inl (Status Canceled), logged (PublishRequest (topic_id topic) msg) b)
      else if topic_id topic \<in> set (b_topics b)
      then (Inr (replicate (Suc (length (b_pending b))) (CHR ''m'')),
            logged (PublishRequest (topic_id topic) msg)
              (b\<lparr>b_pending := b_pending b @ [msg]\<rparr>))
      else (Inl (Status NotFound), logged (PublishRequest (topic_id topic) msg) b))"

definition mem_Subscription_Exists ::
  "pubsub_Subscription \<Rightarrow> broker \<Rightarrow> (bool \<times> error option) \<times> broker"
where
  "mem_Subscription_Exists sub b =
     (if b_closed b
      then ((False, Some (Status Canceled)), logged (GetSubscriptionRequest (sub_id sub)) b)
      else ((map_of (b_subscriptions b) (sub_id sub) \<noteq> None, None),
            logged (GetSubscriptionRequest (sub_id sub)) b))"

definition mem_CreateSubscription ::
  "pubsub_ReceiveSettings \<Rightarrow> ref \<Rightarrow> string \<Rightarrow> pubsub_SubscriptionConfig \<Rightarrow> broker
     \<Rightarrow> (error + pubsub_Subscription) \<times> broker"
where
  "mem_CreateSubscription rs k subID sc0 b =
     (let sc = (if ps_AckDeadline sc0 = 0 then sc0\<lparr>ps_AckDeadline := 10 * Second\<rparr> else sc0)
      in if ps_AckDeadline sc < 10 * Second \<or> ps_AckDeadline sc > 600 * Second
         then (Inl (New ''ack deadline must be between 10 and 600 seconds''), b)
         else if b_closed b
         then (Inl (Status Canceled), logged (CreateSubscriptionRequest subID sc) b)
         else if map_of (b_subscriptions b) subID \<noteq> None
         then (Inl (Status AlreadyExists), logged (CreateSubscriptionRequest subID sc) b)
         else if topic_id (ps_Topic sc) \<notin> set (b_topics b)
         then (Inl (Status NotFound), logged (CreateSubscriptionRequest subID sc) b)
         else (Inr \<lparr>sub_client = k, sub_id = subID, ReceiveSettings = rs\<rparr>,
               logged (CreateSubscriptionRequest subID sc)
                 (b\<lparr>b_subscriptions := b_subscriptions b @ [(subID, sc)]\<rparr>)))"

text \<open>Delivery, one message after the other: each waiting message is passed to the callback
  once. A panic that leaves the callback unwinds the loop and the messages behind it are not
  delivered.\<close>

fun deliver :: "callback \<Rightarrow> pubsub_Message list \<Rightarrow> event list list \<times> panic_value option" where
  "deliver f [] = ([], None)"
| "deliver f (m # ms) =
     (case f m of
        (tr, Some v) \<Rightarrow> ([tr], Some v)
      | (tr, None) \<Rightarrow> (let (trs, p) = deliver f ms in (tr # trs, p)))"

definition mem_Subscription_Receive ::
  "pubsub_Subscription \<Rightarrow> callback \<Rightarrow> broker \<Rightarrow> error option completion \<times> broker"
where
  "mem_Subscription_Receive sub f b =
     (if b_closed b then (Return (Some (Status Canceled)), logged (PullRequest (sub_id sub)) b)
      else (let (trs, p) = deliver f (b_pending b);
                b' = logged (PullRequest (sub_id sub))
                       (b\<lparr>b_pending := drop (length trs) (b_pending b),
                          b_resolved := b_resolved b @ trs\<rparr>)
            in case p of
                 Some v \<Rightarrow> (Panic v, b')
               | None \<Rightarrow> (Return None, b')))"

definition mem_DefaultReceiveSettings :: pubsub_ReceiveSettings where
  "mem_DefaultReceiveSettings =
     \<lparr>ps_Synchronous = False, ps_NumGoroutines = 10, ps_MaxOutstandingMessages = 1000,
      ps_MaxOutstandingBytes = 1000000000\<rparr>"

definition mem_api :: "broker pubsub_api" where
  "mem_api =
     \<lparr>lib_Client_Close = mem_Close,
      lib_Topic_Config = mem_Topic_Config,
      lib_Topic_Publish = mem_Topic_Publish,
      lib_Subscription_Exists = mem_Subscription_Exists,
      lib_CreateSubscription = mem_CreateSubscription mem_DefaultReceiveSettings,
      lib_Subscription_Receive = mem_Subscription_Receive,
      lib_DefaultReceiveSettings = mem_DefaultReceiveSettings,
      lib_Now = b_clock\<rparr>"

text \<open>Concrete values: a broker that has the topic \<open>orders\<close> and nothing else, one that
  also has the subscription \<open>orders-worker-1\<close>, a connected client, and a delivered message
  with and without the delivery-attempt field.\<close>

definition orders :: pubsub_Topic where
  "orders = lib_Topic 0 ''orders''"

definition broker0 :: broker where
  "broker0 =
     \<lparr>b_topics = [''orders''], b_subscriptions = [], b_closed = False, b_pending = [],
      b_resolved = [], b_requests = [], b_clock = 1000\<rparr>"

definition broker1 :: broker where
  "broker1 =
     broker0\<lparr>b_subscriptions :=
               [(''orders-worker-1'',
                 \<lparr>ps_Topic = orders, ps_AckDeadline = 10 * Second, ps_RetentionDuration = 0,
                  ps_RetryPolicy = None\<rparr>)]\<rparr>"

definition client0 :: PubSubClient where
  "client0 = PubSubClient (Some 0)"

definition message1 :: pubsub_Message where
  "message1 =
     \<lparr>ps_ID = ''m'', ps_Data = [104, 105], ps_Attributes = Map.empty, ps_PublishTime = 900,
      ps_DeliveryAttempt = Some 1, ps_OrderingKey = []\<rparr>"

definition message0 :: pubsub_Message where
  "message0 = message1\<lparr>ps_DeliveryAttempt := None\<rparr>"

text \<open>The configuration \<open>&SubscriptionConfig{}\<close>: no field is set.\<close>

definition cfg_unset :: SubscriptionConfig where
  "cfg_unset = \<lparr>cfg_Topic = None, AckDeadline = 0, MinBackoff = 0, MaxBackoff = 0,
                StartAtTime = 0\<rparr>"

text \<open>The subscription handle that \<open>Subscription\<close> returns for \<open>orders-worker-1\<close>, and a
  handler that returns nil for every message.\<close>

definition worker1 :: Subscription where
  "worker1 = Subscription (Some (lib_Subscription mem_api 0 ''orders-worker-1''))"

definition handler_ok :: Handler where
  "handler_ok msg = Returns None"

section \<open>The per-message callback of Receive\<close>

lemma callback_Returns:
  "ps_DeliveryAttempt m = Some n \<Longrightarrow> handler (Message_of m n) = Returns r \<Longrightarrow>
   callback handler m = ([Call (Message_of m n), (if r = None then Ack else Nack)], None)"
  by (cases r) (simp_all add: callback_def callback_body_def callback_deferred_def)

lemma callback_Panics:
  "ps_DeliveryAttempt m = Some n \<Longrightarrow> handler (Message_of m n) = Panics v \<Longrightarrow>
   callback handler m = ([Call (Message_of m n), Printf v, Nack], None)"
  by (simp add: callback_def callback_body_def callback_deferred_def)

lemma callback_nil_attempt:
  "ps_DeliveryAttempt m = None \<Longrightarrow> callback handler m = ([Printf NilDereference, Nack], None)"
  by (simp add: callback_def callback_body_def callback_deferred_def)

lemma callback_one_resolution:
  "length (filter (\<lambda>e. e = Ack \<or> e = Nack) (fst (callback handler m))) = 1"
proof (cases "ps_DeliveryAttempt m")
  case None
  then show ?thesis by (simp add: callback_nil_attempt)
next
  case (Some n)
  show ?thesis
  proof (cases "handler (Message_of m n)")
    case (Returns r)
    with Some show ?thesis by (simp add: callback_Returns)
  next
    case (Panics v)
    with Some show ?thesis by (simp add: callback_Panics)
  qed
qed

lemma callback_returns: "snd (callback handler m) = None"
  by (simp add: callback_def callback_deferred_def split: prod.splits option.splits)

text \<open>A loop whose callback never lets a panic out delivers every message.\<close>

lemma deliver_all:
  assumes "\<And>m. snd (f m) = None"
  shows "deliver f ms = (map (\<lambda>m. fst (f m)) ms, None)"
proof (induction ms)
  case Nil
  show ?case by simp
next
  case (Cons m ms)
  obtain tr where "f m = (tr, None)"
    using assms [of m] by (cases "f m") simp
  with Cons show ?case by simp
qed

text \<open>On a valid handle \<open>Receive\<close> hands exactly this callback to the library, on the
  subscription object with its settings rewritten.\<close>

lemma Receive_passes_callback:
  "Subscription_s s = Some sub \<Longrightarrow>
   \<exists>rs. Subscription_Receive L s handler cfg w =
     (case lib_Subscription_Receive L (sub\<lparr>ReceiveSettings := rs\<rparr>) (callback handler) w of
        (res, w') \<Rightarrow> ((res, Subscription (Some (sub\<lparr>ReceiveSettings := rs\<rparr>))), w'))"
  unfolding Subscription_Receive_def Let_def by (simp only: option.case) (rule exI, rule refl)

text \<open>
  C1. The claim: for every message that \<open>Receive\<close> dispatches, a handler that returns nil
  gets the message acknowledged. The code at a message without a delivery-attempt field,
  which is every message of a subscription without a dead-letter policy: a message is
  published through the wrapper and received on \<open>orders-worker-1\<close> with the handler that
  returns nil for every message. Publishing and \<open>Receive\<close> both succeed, and the only events
  of the delivery are the printed panic of the nil dereference and \<open>Nack\<close>: the handler is not
  called and the message is not acknowledged.
\<close>

theorem Receive_nil_returning_handler_nacked:
  "(let (r, b1) = Topic_Publish mem_api (Topic (Some orders)) [104, 105] Map.empty broker1;
        ((res, s'), b2) = Subscription_Receive mem_api worker1 handler_ok None b1
    in (r, res, b_pending b1, b_resolved b2))
   = (Inr ''m'', Return None,
      [\<lparr>ps_ID = [], ps_Data = [104, 105], ps_Attributes = Map.empty, ps_PublishTime = 1000,
        ps_DeliveryAttempt = None, ps_OrderingKey = []\<rparr>],
      [[Printf NilDereference, Nack]])"
  by (simp add: Topic_Publish_def Subscription_Receive_def worker1_def handler_ok_def
      mem_api_def mem_Topic_Publish_def mem_Subscription_Receive_def lib_Subscription_def
      logged_def broker1_def broker0_def orders_def lib_Topic_def callback_def
      callback_body_def callback_deferred_def Let_def)

text \<open>
  C2. When the handler panics with a value \<open>v\<close>, the deferred function recovers it: the
  callback prints the value with the stack trace, calls \<open>Nack\<close>, and returns normally (no panic
  leaves the callback). Hence a loop that hands the messages \<open>ms\<close> to the callback one after
  the other delivers all of them, whatever the handler does.
\<close>

theorem Receive_contains_handler_panic:
  "(ps_DeliveryAttempt m = Some n \<and> handler (Message_of m n) = Panics v
      \<longrightarrow> callback handler m = ([Call (Message_of m n), Printf v, Nack], None))
   \<and> deliver (callback handler) ms = (map (\<lambda>m'. fst (callback handler m')) ms, None)"
  using callback_Panics deliver_all [of "callback handler" ms] callback_returns by blast

theorem Receive_contains_handler_panic_witness:
  "ps_DeliveryAttempt message1 = Some 1
   \<and> (\<lambda>msg. Panics (Value ''boom'')) (Message_of message1 1) = Panics (Value ''boom'')
   \<and> callback (\<lambda>msg. Panics (Value ''boom'')) message1
       = ([Call (Message_of message1 1), Printf (Value ''boom''), Nack], None)
   \<and> deliver (callback (\<lambda>msg. Panics (Value ''boom''))) [message1, message0]
       = ([[Call (Message_of message1 1), Printf (Value ''boom''), Nack],
           [Printf NilDereference, Nack]], None)"
  using Receive_contains_handler_panic
      [of message1 1 "\<lambda>msg. Panics (Value ''boom'')" "Value ''boom''" "[message1, message0]"]
    callback_nil_attempt [of message0 "\<lambda>msg. Panics (Value ''boom'')"]
  by (simp add: message1_def message0_def)

text \<open>
  C9. For a message whose delivery-attempt pointer is nil the callback panics on the
  dereference before it reaches the handler; the deferred function prints the panic and calls
  \<open>Nack\<close>. The handler is not called and \<open>Ack\<close> is not called, for any handler and on every
  delivery of such a message.
\<close>

theorem Receive_nil_DeliveryAttempt_nacked:
  "ps_DeliveryAttempt m = None \<Longrightarrow>
   callback handler m = ([Printf NilDereference, Nack], None)
   \<and> (\<forall>msg. Call msg \<notin> set (fst (callback handler m)))
   \<and> Ack \<notin> set (fst (callback handler m))"
  by (simp add: callback_nil_attempt)

theorem Receive_nil_DeliveryAttempt_nacked_witness:
  "ps_DeliveryAttempt message0 = None
   \<and> callback (\<lambda>msg. Returns None) message0 = ([Printf NilDereference, Nack], None)"
  using Receive_nil_DeliveryAttempt_nacked [of message0 "\<lambda>msg. Returns None"]
  by (simp add: message0_def message1_def)

text \<open>
  C7. \<open>Receive\<close> does not read \<open>cfg.EnableMessageOrdering\<close>: with the flag set, the settings it
  writes, the callback it passes and the library call it makes are those of the same call
  with the flag cleared.
\<close>

theorem Receive_ignores_EnableMessageOrdering:
  "Subscription_Receive L s handler (Some (cfg\<lparr>EnableMessageOrdering := True\<rparr>)) w
     = Subscription_Receive L s handler (Some (cfg\<lparr>EnableMessageOrdering := False\<rparr>)) w"
  by (cases "Subscription_s s") (simp_all add: Subscription_Receive_def Let_def)

section \<open>Topic handles\<close>

text \<open>
  C6. For every client, \<open>Topic\<close> with the empty identifier returns a handle without reading the
  client and without a call to the library (it is a pure function that does not panic). On
  that handle \<open>Exists\<close> returns \<open>(false, nil)\<close> and \<open>Publish\<close> fails with the error
  \<open>invalid topic\<close>, both without a call to the library: the world is unchanged.
\<close>

theorem Topic_empty_id_deferred_validation:
  "Client_Topic c [] = Return (Topic None)
   \<and> Topic_Exists L (Topic None) w = ((False, None), w)
   \<and> Topic_Publish L (Topic None) data attrs w = (Inl (New ''invalid topic''), w)"
  by (simp add: Client_Topic_def Topic_Exists_def Topic_Publish_def)

text \<open>
  C10. On a valid handle \<open>Exists\<close> returns \<open>(err == nil, err)\<close> for the error \<open>err\<close> of the
  library's configuration lookup. It never returns true together with an error, and when the
  lookup fails (the topic does not exist) it returns false together with the lookup's error.
\<close>

theorem Topic_Exists_valid_handle:
  assumes "Topic_t tp = Some topic" and "lib_Topic_Config L topic w = (err, w')"
  shows "Topic_Exists L tp w = ((err = None, err), w')
         \<and> (\<forall>e. fst (Topic_Exists L tp w) \<noteq> (True, Some e))
         \<and> (err \<noteq> None \<longrightarrow> fst (Topic_Exists L tp w) = (False, err))"
  using assms by (auto simp add: Topic_Exists_def)

theorem Topic_Exists_valid_handle_witness:
  "Topic_t (Topic (Some (lib_Topic 0 ''missing''))) = Some (lib_Topic 0 ''missing'')
   \<and> lib_Topic_Config mem_api (lib_Topic 0 ''missing'') broker0
       = (Some (Status NotFound), logged (GetTopicRequest ''missing'') broker0)
   \<and> Topic_Exists mem_api (Topic (Some (lib_Topic 0 ''missing''))) broker0
       = ((False, Some (Status NotFound)), logged (GetTopicRequest ''missing'') broker0)"
proof -
  have cfg: "lib_Topic_Config mem_api (lib_Topic 0 ''missing'') broker0
       = (Some (Status NotFound), logged (GetTopicRequest ''missing'') broker0)"
    by (simp add: mem_api_def mem_Topic_Config_def lib_Topic_def broker0_def)
  from Topic_Exists_valid_handle [OF _ cfg, of "Topic (Some (lib_Topic 0 ''missing''))"] cfg
  show ?thesis by simp
qed

section \<open>Closing the client\<close>

lemma Client_Close_connected: "Client_Close L (PubSubClient (Some k)) = lib_Client_Close L k"
  by (rule ext) (simp add: Client_Close_def)

text \<open>
  C5, as the code has it. \<open>Close\<close> on a client without a connection returns nil and does
  nothing. On a client with a connection every call, the first and each later one, is the
  library's \<open>Close\<close> on that connection: the wrapper keeps no record of having been closed,
  so the call that follows \<open>n\<close> earlier calls returns what the library's \<open>Close\<close> returns on
  a connection it has already closed \<open>n\<close> times.
\<close>

theorem Close_delegates_every_call:
  "Client_Close L (PubSubClient None) w = (None, w)
   \<and> Client_Close L (PubSubClient (Some k)) w = lib_Client_Close L k w
   \<and> Client_Close L (PubSubClient (Some k))
        (((\<lambda>w'. snd (Client_Close L (PubSubClient (Some k)) w')) ^^ n) w)
       = lib_Client_Close L k (((\<lambda>w'. snd (lib_Client_Close L k w')) ^^ n) w)"
  by (simp add: Client_Close_connected) (simp add: Client_Close_def)

text \<open>With a connection that reports an error when it is closed again, the second \<open>Close\<close>
  reaches the connection a second time and returns that error.\<close>

theorem Close_second_call_not_noop:
  "fst (Client_Close mem_api client0 broker0) = None
   \<and> fst (Client_Close mem_api client0 (snd (Client_Close mem_api client0 broker0)))
       = Some (Status Canceled)
   \<and> b_requests (snd (Client_Close mem_api client0 (snd (Client_Close mem_api client0 broker0))))
       = [CloseRequest 0, CloseRequest 0]"
  by (simp add: Client_Close_def client0_def mem_api_def mem_Close_def logged_def broker0_def)

section \<open>Creating a subscription\<close>

text \<open>Once the arguments are accepted and the existence lookup has answered without error,
  the call either fails with the sentinel or passes \<open>subConfig\<close> to the library.\<close>

lemma CreateSubscription_checked:
  assumes "PubSubClient_client c = Some k" and "subID \<noteq> []" and "Topic_t tp = Some pt"
    and "lib_Subscription_Exists L (lib_Subscription L k subID) w = ((exists, None), w1)"
  shows "CreateSubscription L c subID (Some tp) cfg w =
     (if exists then (Return (Inl ErrSubscriptionExists), w1)
      else case lib_CreateSubscription L k subID (subConfig pt (lib_Now L w1) cfg) w1 of
             (Inl e, w2) \<Rightarrow> (Return (Inl (Errorf ''failed to create subscription: '' e)), w2)
           | (Inr s, w2) \<Rightarrow> (Return (Inr (Subscription (Some s))), w2))"
  using assms by (simp add: CreateSubscription_def split: prod.splits sum.splits)

lemma subConfig_AckDeadline:
  "ps_AckDeadline (subConfig pt now cfg) =
     (case cfg of None \<Rightarrow> 0 | Some cf \<Rightarrow> if AckDeadline cf > 0 then AckDeadline cf else 0)"
  by (simp add: subConfig_def Let_def split: option.splits)

lemma subConfig_RetryPolicy:
  "ps_RetryPolicy (subConfig pt now cfg) =
     (case cfg of
        None \<Rightarrow> None
      | Some cf \<Rightarrow>
          if MinBackoff cf > 0 \<or> MaxBackoff cf > 0
          then Some \<lparr>MinimumBackoff = (if MinBackoff cf > 0 then MinBackoff cf else 10 * Second),
                     MaximumBackoff = (if MaxBackoff cf > 0 then MaxBackoff cf else 600 * Second)\<rparr>
          else None)"
  by (simp add: subConfig_def Let_def Minute_def split: option.splits)

text \<open>The configuration that reaches the library once the arguments are accepted and no
  subscription of that identifier exists: the caller's acknowledgment deadline when it is
  positive and otherwise zero; a retry policy only when the configuration is not nil and
  \<open>MinBackoff\<close> or \<open>MaxBackoff\<close> is positive, and then a bound that is not positive takes its
  default, 10 seconds for the minimum and 600 seconds for the maximum.\<close>

lemma CreateSubscription_request:
  assumes "PubSubClient_client c = Some k" and "subID \<noteq> []" and "Topic_t tp = Some pt"
    and "lib_Subscription_Exists L (lib_Subscription L k subID) w = ((False, None), w1)"
  shows "CreateSubscription L c subID (Some tp) cfg w =
           (case lib_CreateSubscription L k subID (subConfig pt (lib_Now L w1) cfg) w1 of
              (Inl e, w2) \<Rightarrow> (Return (Inl (Errorf ''failed to create subscription: '' e)), w2)
            | (Inr s, w2) \<Rightarrow> (Return (Inr (Subscription (Some s))), w2))
         \<and> ps_AckDeadline (subConfig pt (lib_Now L w1) cfg) =
             (case cfg of
                None \<Rightarrow> 0
              | Some cf \<Rightarrow> if AckDeadline cf > 0 then AckDeadline cf else 0)
         \<and> ps_RetryPolicy (subConfig pt (lib_Now L w1) cfg) =
             (case cfg of
                None \<Rightarrow> None
              | Some cf \<Rightarrow>
                  if MinBackoff cf > 0 \<or> MaxBackoff cf > 0
                  then Some \<lparr>MinimumBackoff =
                               (if MinBackoff cf > 0 then MinBackoff cf else 10 * Second),
                             MaximumBackoff =
                               (if MaxBackoff cf > 0 then MaxBackoff cf else 600 * Second)\<rparr>
                  else None)"
  using CreateSubscription_checked [OF assms] subConfig_AckDeadline subConfig_RetryPolicy
  by simp

text \<open>
  C3. The claim: with unset deadline and backoff fields, a nil configuration included, the
  subscription is created with an acknowledgment deadline of 10 seconds, a minimum backoff of
  10 seconds and a maximum backoff of 600 seconds. The code at the configuration with no
  field set, and at the nil configuration: the subscription is created, its acknowledgment
  deadline is the 10 seconds that the library puts in place of zero, and the request and the
  stored subscription have no retry policy at all, so neither backoff default is applied.
\<close>

theorem CreateSubscription_unset_backoffs_no_retry_policy:
  "CreateSubscription mem_api client0 ''orders-worker-1'' (Some (Topic (Some orders)))
     (Some cfg_unset) broker0
     = (Return (Inr (Subscription (Some
          \<lparr>sub_client = 0, sub_id = ''orders-worker-1'',
           ReceiveSettings = mem_DefaultReceiveSettings\<rparr>))),
        broker0
          \<lparr>b_subscriptions :=
             [(''orders-worker-1'',
               \<lparr>ps_Topic = orders, ps_AckDeadline = 10000000000, ps_RetentionDuration = 0,
                ps_RetryPolicy = None\<rparr>)],
           b_requests :=
             [GetSubscriptionRequest ''orders-worker-1'',
              CreateSubscriptionRequest ''orders-worker-1''
                \<lparr>ps_Topic = orders, ps_AckDeadline = 10000000000, ps_RetentionDuration = 0,
                 ps_RetryPolicy = None\<rparr>]\<rparr>)
   \<and> CreateSubscription mem_api client0 ''orders-worker-1'' (Some (Topic (Some orders)))
        None broker0
     = CreateSubscription mem_api client0 ''orders-worker-1'' (Some (Topic (Some orders)))
        (Some cfg_unset) broker0
   \<and> subConfig orders 1000 (Some cfg_unset)
     = \<lparr>ps_Topic = orders, ps_AckDeadline = 0, ps_RetentionDuration = 0,
        ps_RetryPolicy = None\<rparr>"
  by (simp add: CreateSubscription_def client0_def mem_api_def mem_Subscription_Exists_def
      mem_CreateSubscription_def lib_Subscription_def subConfig_def logged_def broker0_def
      orders_def lib_Topic_def cfg_unset_def IsZero_def Second_def Let_def)

text \<open>
  C4. On a call whose arguments are valid (a client with a connection, a non-empty identifier,
  a valid topic handle), when the existence lookup reports that the subscription is present
  the call fails with \<open>ErrSubscriptionExists\<close>, and the world it leaves is the one the lookup
  left: the library's \<open>CreateSubscription\<close> is not reached and nothing is changed.
\<close>

theorem CreateSubscription_existing_fails:
  assumes "PubSubClient_client c = Some k" and "subID \<noteq> []" and "Topic_t tp = Some pt"
    and "lib_Subscription_Exists L (lib_Subscription L k subID) w = ((True, None), w1)"
  shows "CreateSubscription L c subID (Some tp) cfg w = (Return (Inl ErrSubscriptionExists), w1)"
  using CreateSubscription_checked [OF assms] by simp

theorem CreateSubscription_existing_fails_witness:
  "PubSubClient_client client0 = Some 0 \<and> ''orders-worker-1'' \<noteq> []
   \<and> Topic_t (Topic (Some orders)) = Some orders
   \<and> lib_Subscription_Exists mem_api (lib_Subscription mem_api 0 ''orders-worker-1'') broker1
       = ((True, None), logged (GetSubscriptionRequest ''orders-worker-1'') broker1)
   \<and> CreateSubscription mem_api client0 ''orders-worker-1'' (Some (Topic (Some orders))) None broker1
       = (Return (Inl ErrSubscriptionExists),
          broker1\<lparr>b_requests := [GetSubscriptionRequest ''orders-worker-1'']\<rparr>)"
proof -
  have c: "PubSubClient_client client0 = Some 0" by (simp add: client0_def)
  have i: "''orders-worker-1'' \<noteq> []" by simp
  have t: "Topic_t (Topic (Some orders)) = Some orders" by simp
  have e: "lib_Subscription_Exists mem_api (lib_Subscription mem_api 0 ''orders-worker-1'') broker1
       = ((True, None), logged (GetSubscriptionRequest ''orders-worker-1'') broker1)"
    by (simp add: mem_api_def mem_Subscription_Exists_def lib_Subscription_def broker1_def
        broker0_def)
  have l: "logged (GetSubscriptionRequest ''orders-worker-1'') broker1
       = broker1\<lparr>b_requests := [GetSubscriptionRequest ''orders-worker-1'']\<rparr>"
    by (simp add: logged_def broker1_def broker0_def)
  from CreateSubscription_existing_fails [OF c i t e, of None] c i t e l show ?thesis by simp
qed

end
